theory Spec2Isabelle
  imports Main "HOL-Library.Word"
begin

section \<open>cel2squirrel: conversion of a checked CEL expression into a squirrel predicate\<close>

text \<open>
  A shallow embedding of \<^verbatim>\<open>converter.go\<close>. Go strings are byte strings, so a
  \<^typ>\<open>string\<close> (a list of 8-bit characters) is the Go string and \<^const>\<open>length\<close> is
  Go's \<^verbatim>\<open>len\<close>. The backslash is written \<^term>\<open>CHR 0x5C\<close>.

  What lies outside the package is a parameter of the model: the CEL environment of a
  converter is the function from the source text to what \<^verbatim>\<open>Compile\<close>,
  \<^verbatim>\<open>OutputType\<close> and \<^verbatim>\<open>AstToCheckedExpr\<close> give for it, and the order in
  which Go ranges over a map is a function on the list of its keys. The calls of the
  optional security logger return nothing and change nothing the converter reads, and
  are left out.
\<close>

subsection \<open>Values, types and the checked expression tree\<close>

text \<open>The dynamic values (\<^verbatim>\<open>interface{}\<close>) the converter extracts from constants.\<close>

datatype go_value =
    VNil
  | VBool bool
  | VInt64 "64 word"
  | VUint64 "64 word"
  | VFloat64 "64 word"
  | VString string
  | VList "go_value list"

text \<open>What \<^verbatim>\<open>%T\<close> prints for such a value.\<close>

fun typeName :: "go_value \<Rightarrow> string" where
  "typeName VNil = ''<nil>''"
| "typeName (VBool _) = ''bool''"
| "typeName (VInt64 _) = ''int64''"
| "typeName (VUint64 _) = ''uint64''"
| "typeName (VFloat64 _) = ''float64''"
| "typeName (VString _) = ''string''"
| "typeName (VList _) = ''[]interface {}''"

text \<open>The types of cel-go a field can be declared with, and the name \<^verbatim>\<open>String()\<close> gives.\<close>

datatype cel_type =
    StringType | IntType | UintType | DoubleType | BoolType | BytesType | NullType
  | TimestampType | DurationType | DynType
  | ListType cel_type
  | MapType cel_type cel_type

fun TypeString :: "cel_type \<Rightarrow> string" where
  "TypeString StringType = ''string''"
| "TypeString IntType = ''int''"
| "TypeString UintType = ''uint''"
| "TypeString DoubleType = ''double''"
| "TypeString BoolType = ''bool''"
| "TypeString BytesType = ''bytes''"
| "TypeString NullType = ''null_type''"
| "TypeString TimestampType = ''google.protobuf.Timestamp''"
| "TypeString DurationType = ''google.protobuf.Duration''"
| "TypeString DynType = ''dyn''"
| "TypeString (ListType t) = ''list('' @ TypeString t @ '')''"
| "TypeString (MapType k v) = ''map('' @ TypeString k @ '', '' @ TypeString v @ '')''"

text \<open>
  \<^verbatim>\<open>exprpb.Constant\<close> with its \<^verbatim>\<open>ConstantKind\<close>; \<open>ConstantUnset\<close> is a constant
  whose kind is not set. Doubles are kept as their 64 bits: the converter only moves them.
\<close>

datatype Constant =
    BoolValue bool
  | Int64Value "64 word"
  | Uint64Value "64 word"
  | DoubleValue "64 word"
  | StringValue string
  | NullValue
  | BytesValue string
  | DurationValue
  | TimestampValue
  | ConstantUnset

text \<open>
  \<^verbatim>\<open>*exprpb.Expr\<close>. \<open>NilExpr\<close> is the nil pointer (the absent target of a call that
  is not a method call, among others) and \<open>UnsetExpr\<close> an expression whose
  \<^verbatim>\<open>ExprKind\<close> is not set. A call is its function name, its target and its arguments;
  a struct is the list of its entries, each the map key (\<open>NilExpr\<close> for a field entry)
  and the value. A comprehension, to which the CEL compiler expands a macro such as
  \<^verbatim>\<open>exists\<close>, is its iteration variable and range, its accumulator variable and
  initial value, its loop condition, its loop step and its result; the converter never
  reads these parts. A kind whose payload pointer is nil is not a value of this type:
  neither protobuf decoding nor the CEL compiler builds one.
\<close>

datatype expr =
    NilExpr
  | UnsetExpr
  | ConstExpr Constant
  | IdentExpr string
  | SelectExpr expr string
  | CallExpr string expr "expr list"
  | ListExpr "expr list"
  | StructExpr "(expr \<times> expr) list"
  | ComprehensionExpr string expr string expr expr expr expr

text \<open>What \<^verbatim>\<open>%T\<close> prints for \<^verbatim>\<open>expr.ExprKind\<close> and for \<^verbatim>\<open>constExpr.ConstantKind\<close>.\<close>

fun kindName :: "expr \<Rightarrow> string" where
  "kindName NilExpr = ''<nil>''"
| "kindName UnsetExpr = ''<nil>''"
| "kindName (ConstExpr _) = ''*expr.Expr_ConstExpr''"
| "kindName (IdentExpr _) = ''*expr.Expr_IdentExpr''"
| "kindName (SelectExpr _ _) = ''*expr.Expr_SelectExpr''"
| "kindName (CallExpr _ _ _) = ''*expr.Expr_CallExpr''"
| "kindName (ListExpr _) = ''*expr.Expr_ListExpr''"
| "kindName (StructExpr _) = ''*expr.Expr_StructExpr''"
| "kindName (ComprehensionExpr _ _ _ _ _ _ _) = ''*expr.Expr_ComprehensionExpr''"

fun constantKindName :: "Constant \<Rightarrow> string" where
  "constantKindName (BoolValue _) = ''*expr.Constant_BoolValue''"
| "constantKindName (Int64Value _) = ''*expr.Constant_Int64Value''"
| "constantKindName (Uint64Value _) = ''*expr.Constant_Uint64Value''"
| "constantKindName (DoubleValue _) = ''*expr.Constant_DoubleValue''"
| "constantKindName (StringValue _) = ''*expr.Constant_StringValue''"
| "constantKindName NullValue = ''*expr.Constant_NullValue''"
| "constantKindName (BytesValue _) = ''*expr.Constant_BytesValue''"
| "constantKindName DurationValue = ''*expr.Constant_DurationValue''"
| "constantKindName TimestampValue = ''*expr.Constant_TimestampValue''"
| "constantKindName ConstantUnset = ''<nil>''"

subsection \<open>Errors\<close>

text \<open>
  A Go \<^verbatim>\<open>error\<close> of the package is either a \<^verbatim>\<open>*ConversionError\<close> (public
  message, error code, internal error) or the result of \<^verbatim>\<open>fmt.Errorf\<close>, kept as its
  format string, its arguments in order and the error it wraps with \<^verbatim>\<open>%w\<close>, if any.
  \<open>External\<close> is an error of the CEL library. \<open>Panic\<close> stands for a run-time panic
  (a nil pointer dereference): the call does not return, and no caller wraps it.
\<close>

datatype fmt_arg = ArgInt int | ArgStr string | ArgStrs "string list"

datatype error =
    ConversionError string string error
  | Errorf string "fmt_arg list" "error option"
  | External string
  | Panic

fun ErrorCode :: "error \<Rightarrow> string option" where
  "ErrorCode (ConversionError msg code internal) = Some code"
| "ErrorCode _ = None"

definition newConversionError :: "string \<Rightarrow> string \<Rightarrow> error \<Rightarrow> error" where
  "newConversionError publicMsg errorCode internalErr =
     ConversionError publicMsg errorCode internalErr"

text \<open>
  \<^verbatim>\<open>errors.As(err, &convErr)\<close>: the first \<^verbatim>\<open>*ConversionError\<close> on the
  \<^verbatim>\<open>Unwrap\<close> chain of an error, the error itself included. It is how a caller
  reaches the code of a failure that \<^verbatim>\<open>Convert\<close> has wrapped.
\<close>

fun asConversionError :: "error \<Rightarrow> error option" where
  "asConversionError (ConversionError msg code internal) =
     Some (ConversionError msg code internal)"
| "asConversionError (Errorf f args (Some e)) = asConversionError e"
| "asConversionError (Errorf f args None) = None"
| "asConversionError (External m) = None"
| "asConversionError Panic = None"

text \<open>
  \<^verbatim>\<open>fmt.Errorf(format, args..., err)\<close> with a \<^verbatim>\<open>%w\<close> for \<open>err\<close>, after a
  call that returned \<open>err\<close>; a panic in that call is not a returned error and passes
  through.
\<close>

fun wrap :: "string \<Rightarrow> fmt_arg list \<Rightarrow> error \<Rightarrow> error" where
  "wrap f args Panic = Panic"
| "wrap f args e = Errorf f args (Some e)"

subsection \<open>The converter\<close>

record ColumnMapping =
  Type :: "cel_type option"
  Column :: string

text \<open>
  What the CEL environment gives for a source text: the issues of \<^verbatim>\<open>Compile\<close>, or
  an AST with its output type and the result of \<^verbatim>\<open>AstToCheckedExpr\<close> (whose
  \<^verbatim>\<open>GetExpr()\<close> may be nil). An error of the library is given by its message.
\<close>

record ast =
  OutputType :: cel_type
  AstToCheckedExpr :: "string + expr"

text \<open>
  \<open>publicFields\<close> is the key set of the \<^verbatim>\<open>map[string]bool\<close> that
  \<^verbatim>\<open>NewConverter\<close> fills with \<^verbatim>\<open>true\<close> only; \<open>fieldACL\<close> is the map from
  field names to role lists as an association list, empty exactly when the map is.
\<close>

record Converter =
  env :: "string \<Rightarrow> string + ast"
  columnMappings :: "string \<rightharpoonup> string"
  fieldDeclarations :: "string \<rightharpoonup> ColumnMapping"
  maxExpressionLength :: int
  maxExpressionDepth :: int
  maxInClauseSize :: int
  publicFields :: "string set"
  fieldACL :: "(string \<times> string list) list"

text \<open>
  The predicates the converter builds: the squirrel types it uses (\<^verbatim>\<open>Eq\<close> and its
  siblings are maps with the single key \<open>column\<close> here), \<^verbatim>\<open>squirrel.Expr\<close> with
  no arguments, and the package's own \<^verbatim>\<open>notSqlizer\<close>.
\<close>

datatype sqlizer =
    Eq string go_value
  | NotEq string go_value
  | Lt string go_value
  | LtOrEq string go_value
  | Gt string go_value
  | GtOrEq string go_value
  | Like string go_value
  | And "sqlizer list"
  | Or "sqlizer list"
  | notSqlizer sqlizer
  | Expr string

record ConvertResult =
  Where :: sqlizer
  Args :: "go_value list"

subsection \<open>Pattern escaping\<close>

text \<open>
  \<^verbatim>\<open>strings.ReplaceAll(s, old, new)\<close> for an \<open>old\<close> of one byte, which is every call
  of it in \<^verbatim>\<open>escapeLikePattern\<close>.
\<close>

primrec ReplaceAll :: "string \<Rightarrow> char \<Rightarrow> string \<Rightarrow> string" where
  "ReplaceAll [] old new = []"
| "ReplaceAll (c # cs) old new = (if c = old then new else [c]) @ ReplaceAll cs old new"

definition escapeLikePattern :: "string \<Rightarrow> string" where
  "escapeLikePattern s =
     (let s = ReplaceAll s (CHR 0x5C) [CHR 0x5C, CHR 0x5C];
          s = ReplaceAll s (CHR ''%'') [CHR 0x5C, CHR ''%''];
          s = ReplaceAll s (CHR ''_'') [CHR 0x5C, CHR ''_''];
          s = ReplaceAll s (CHR ''['') [CHR 0x5C, CHR ''[''];
          s = ReplaceAll s (CHR '']'') [CHR 0x5C, CHR '']'']
      in s)"


subsection \<open>Limits and authorization\<close>

text \<open>
  \<^verbatim>\<open>calculateExpressionDepth\<close>; the three helper functions are its loops over the
  arguments, the list elements and the struct entries, with the running maximum.
\<close>

function calculateExpressionDepth :: "expr \<Rightarrow> int"
  and maxDepthOf :: "expr list \<Rightarrow> int \<Rightarrow> int"
  and maxEntryDepthOf :: "(expr \<times> expr) list \<Rightarrow> int \<Rightarrow> int" where
  "calculateExpressionDepth NilExpr = 0"
| "calculateExpressionDepth (CallExpr f target args) =
     (let maxArgDepth = 0;
          maxArgDepth = (if target \<noteq> NilExpr then
                           (let targetDepth = calculateExpressionDepth target
                            in if targetDepth > maxArgDepth then targetDepth else maxArgDepth)
                         else maxArgDepth)
      in maxDepthOf args maxArgDepth + 1)"
| "calculateExpressionDepth (SelectExpr operand field) = calculateExpressionDepth operand + 1"
| "calculateExpressionDepth (ListExpr elements) = maxDepthOf elements 0 + 1"
| "calculateExpressionDepth (StructExpr entries) = maxEntryDepthOf entries 0 + 1"
| "calculateExpressionDepth UnsetExpr = 1"
| "calculateExpressionDepth (ConstExpr c) = 1"
| "calculateExpressionDepth (IdentExpr n) = 1"
| "calculateExpressionDepth (ComprehensionExpr iv ir av ai lc ls r) = 1"
| "maxDepthOf [] m = m"
| "maxDepthOf (arg # args) m =
     (let argDepth = calculateExpressionDepth arg
      in maxDepthOf args (if argDepth > m then argDepth else m))"
| "maxEntryDepthOf [] m = m"
| "maxEntryDepthOf ((k, v) # entries) m =
     (let keyDepth = calculateExpressionDepth k;
          valueDepth = calculateExpressionDepth v;
          m = (if keyDepth > m then keyDepth else m);
          m = (if valueDepth > m then valueDepth else m)
      in maxEntryDepthOf entries m)"
  by pat_completeness auto
termination
  by (relation "measure (\<lambda>x. case x of
         Inl e \<Rightarrow> size e
       | Inr (Inl (es, m)) \<Rightarrow> size_list size es
       | Inr (Inr (entries, m)) \<Rightarrow> size_list (size_prod size size) entries)") auto

text \<open>
  \<^verbatim>\<open>walkExpr\<close> with the callback of \<^verbatim>\<open>extractReferencedFields\<close>, which adds
  the name of an identifier and the field of a select to the set \<^verbatim>\<open>fields\<close>. The set is
  threaded as \<open>flds\<close>, the list of its keys without duplicates.
\<close>

definition addField :: "expr \<Rightarrow> string list \<Rightarrow> string list" where
  "addField e flds =
     (case e of
        IdentExpr name \<Rightarrow> List.insert name flds
      | SelectExpr operand field \<Rightarrow> List.insert field flds
      | _ \<Rightarrow> flds)"

function walkExpr :: "expr \<Rightarrow> string list \<Rightarrow> string list"
  and walkExprs :: "expr list \<Rightarrow> string list \<Rightarrow> string list"
  and walkEntries :: "(expr \<times> expr) list \<Rightarrow> string list \<Rightarrow> string list" where
  "walkExpr NilExpr flds = flds"
| "walkExpr (CallExpr f target args) flds =
     (let flds = addField (CallExpr f target args) flds;
          flds = (if target \<noteq> NilExpr then walkExpr target flds else flds)
      in walkExprs args flds)"
| "walkExpr (SelectExpr operand field) flds =
     walkExpr operand (addField (SelectExpr operand field) flds)"
| "walkExpr (ListExpr elements) flds =
     walkExprs elements (addField (ListExpr elements) flds)"
| "walkExpr (StructExpr entries) flds =
     walkEntries entries (addField (StructExpr entries) flds)"
| "walkExpr UnsetExpr flds = addField UnsetExpr flds"
| "walkExpr (ConstExpr c) flds = addField (ConstExpr c) flds"
| "walkExpr (IdentExpr n) flds = addField (IdentExpr n) flds"
| "walkExpr (ComprehensionExpr iv ir av ai lc ls r) flds =
     addField (ComprehensionExpr iv ir av ai lc ls r) flds"
| "walkExprs [] flds = flds"
| "walkExprs (arg # args) flds = walkExprs args (walkExpr arg flds)"
| "walkEntries [] flds = flds"
| "walkEntries ((k, v) # entries) flds =
     walkEntries entries (walkExpr v (walkExpr k flds))"
  by pat_completeness auto
termination
  by (relation "measure (\<lambda>x. case x of
         Inl (e, flds) \<Rightarrow> size e
       | Inr (Inl (es, flds)) \<Rightarrow> size_list size es
       | Inr (Inr (entries, flds)) \<Rightarrow> size_list (size_prod size size) entries)") auto

text \<open>
  \<^verbatim>\<open>extractReferencedFields\<close>: the keys of the set, in the order \<open>rangeOrder\<close> in
  which the \<^verbatim>\<open>range\<close> over the map happens to yield them.
\<close>

definition extractReferencedFields :: "(string list \<Rightarrow> string list) \<Rightarrow> expr \<Rightarrow> string list" where
  "extractReferencedFields rangeOrder e = rangeOrder (walkExpr e [])"

definition isFieldAuthorized :: "Converter \<Rightarrow> string \<Rightarrow> string list \<Rightarrow> bool" where
  "isFieldAuthorized c field userRoles =
     (if field \<in> publicFields c then True
      else (case map_of (fieldACL c) field of
              Some allowedRoles \<Rightarrow>
                list_ex (\<lambda>userRole. list_ex (\<lambda>allowedRole. userRole = allowedRole) allowedRoles)
                  userRoles
            | None \<Rightarrow> False))"

subsection \<open>The predicate compiler\<close>

definition mapFieldName :: "Converter \<Rightarrow> string \<Rightarrow> string" where
  "mapFieldName c field =
     (case columnMappings c field of Some mapped \<Rightarrow> mapped | None \<Rightarrow> field)"

text \<open>
  \<^verbatim>\<open>getFieldName\<close>, \<^verbatim>\<open>getConstantValue\<close> and \<^verbatim>\<open>getListValues\<close> use the
  nil-safe getters of protobuf first and read \<^verbatim>\<open>expr.ExprKind\<close> for the error
  message when the getter gave nil: on a nil expression that read panics.
\<close>

fun getFieldName :: "expr \<Rightarrow> error + string" where
  "getFieldName (IdentExpr name) = Inr name"
| "getFieldName (SelectExpr operand field) = Inr field"
| "getFieldName NilExpr = Inl Panic"
| "getFieldName e =
     Inl (Errorf ''expression is not a field identifier: %T'' [ArgStr (kindName e)] None)"

fun getConstantValue :: "expr \<Rightarrow> error + go_value" where
  "getConstantValue (ConstExpr (BoolValue b)) = Inr (VBool b)"
| "getConstantValue (ConstExpr (Int64Value i)) = Inr (VInt64 i)"
| "getConstantValue (ConstExpr (Uint64Value u)) = Inr (VUint64 u)"
| "getConstantValue (ConstExpr (DoubleValue d)) = Inr (VFloat64 d)"
| "getConstantValue (ConstExpr (StringValue s)) = Inr (VString s)"
| "getConstantValue (ConstExpr NullValue) = Inr VNil"
| "getConstantValue (ConstExpr k) =
     Inl (Errorf ''unsupported constant type: %T'' [ArgStr (constantKindName k)] None)"
| "getConstantValue NilExpr = Inl Panic"
| "getConstantValue e =
     Inl (Errorf ''expression is not a constant: %T'' [ArgStr (kindName e)] None)"

text \<open>The loop of \<^verbatim>\<open>getListValues\<close> from index \<open>i\<close> on.\<close>

fun listValuesFrom :: "nat \<Rightarrow> expr list \<Rightarrow> error + go_value list" where
  "listValuesFrom i [] = Inr []"
| "listValuesFrom i (elem # elems) =
     (case getConstantValue elem of
        Inl err \<Rightarrow> Inl (wrap ''failed to get list element %d: %w'' [ArgInt (int i)] err)
      | Inr val \<Rightarrow>
          (case listValuesFrom (Suc i) elems of
             Inl err \<Rightarrow> Inl err
           | Inr vals \<Rightarrow> Inr (val # vals)))"

fun getListValues :: "Converter \<Rightarrow> expr \<Rightarrow> error + go_value list" where
  "getListValues c (ListExpr elements) =
     (if int (length elements) > maxInClauseSize c then
        Inl (Errorf ''IN clause size %d exceeds maximum of %d''
               [ArgInt (int (length elements)), ArgInt (maxInClauseSize c)] None)
      else listValuesFrom 0 elements)"
| "getListValues c NilExpr = Inl Panic"
| "getListValues c e =
     Inl (Errorf ''expression is not a list: %T'' [ArgStr (kindName e)] None)"

text \<open>\<^verbatim>\<open>validateTypeCompatibility\<close>; \<open>None\<close> is the nil error.\<close>

definition validateTypeCompatibility :: "Converter \<Rightarrow> string \<Rightarrow> go_value \<Rightarrow> error option" where
  "validateTypeCompatibility c fieldName v =
     (case fieldDeclarations c fieldName of
        None \<Rightarrow> None
      | Some mapping \<Rightarrow>
          (case Type mapping of
             None \<Rightarrow> None
           | Some t \<Rightarrow>
               (let fieldType = TypeString t in
                if fieldType = ''string'' then
                  (case v of VString _ \<Rightarrow> None
                   | _ \<Rightarrow> Some (Errorf ''expected string, got %T'' [ArgStr (typeName v)] None))
                else if fieldType = ''int'' then
                  (case v of VInt64 _ \<Rightarrow> None
                   | _ \<Rightarrow> Some (Errorf ''expected int, got %T'' [ArgStr (typeName v)] None))
                else if fieldType = ''double'' then
                  (case v of VFloat64 _ \<Rightarrow> None
                   | _ \<Rightarrow> Some (Errorf ''expected double, got %T'' [ArgStr (typeName v)] None))
                else if fieldType = ''bool'' then
                  (case v of VBool _ \<Rightarrow> None
                   | _ \<Rightarrow> Some (Errorf ''expected bool, got %T'' [ArgStr (typeName v)] None))
                else if fieldType = ''uint'' then
                  (case v of VUint64 _ \<Rightarrow> None
                   | _ \<Rightarrow> Some (Errorf ''expected uint, got %T'' [ArgStr (typeName v)] None))
                else None)))"

definition convertComparison :: "Converter \<Rightarrow> expr list \<Rightarrow> string \<Rightarrow> error + sqlizer" where
  "convertComparison c args op =
     (if length args \<noteq> 2 then
        Inl (Errorf ''comparison operator requires exactly 2 arguments, got %d''
               [ArgInt (int (length args))] None)
      else
        (case getFieldName (args ! 0) of
           Inl err \<Rightarrow> Inl err
         | Inr field \<Rightarrow>
             (let column = mapFieldName c field in
              (case getConstantValue (args ! 1) of
                 Inl err \<Rightarrow> Inl err
               | Inr v \<Rightarrow>
                   (case (if v \<noteq> VNil then validateTypeCompatibility c field v else None) of
                      Some err \<Rightarrow>
                        Inl (newConversionError ''invalid comparison type'' ''TYPE_MISMATCH''
                               (Errorf ''type mismatch for field %s: %w'' [ArgStr field] (Some err)))
                    | None \<Rightarrow>
                        if v = VNil \<and> (op = ''='' \<or> op = ''=='') then Inr (Eq column VNil)
                        else if v = VNil \<and> op = ''!='' then Inr (NotEq column VNil)
                        else if op = ''='' \<or> op = ''=='' then Inr (Eq column v)
                        else if op = ''!='' then Inr (NotEq column v)
                        else if op = ''<'' then Inr (Lt column v)
                        else if op = ''<='' then Inr (LtOrEq column v)
                        else if op = ''>'' then Inr (Gt column v)
                        else if op = ''>='' then Inr (GtOrEq column v)
                        else Inl (Errorf ''unsupported comparison operator: %s''
                                    [ArgStr op] None))))))"

definition convertInOperator :: "Converter \<Rightarrow> expr list \<Rightarrow> error + sqlizer" where
  "convertInOperator c args =
     (if length args \<noteq> 2 then
        Inl (Errorf ''IN operator requires exactly 2 arguments, got %d''
               [ArgInt (int (length args))] None)
      else
        (case getFieldName (args ! 0) of
           Inl err \<Rightarrow> Inl err
         | Inr field \<Rightarrow>
             (let column = mapFieldName c field in
              (case getListValues c (args ! 1) of
                 Inl err \<Rightarrow> Inl err
               | Inr list \<Rightarrow> Inr (Eq column (VList list))))))"

text \<open>
  The three string operators take the call: its target and its arguments.
\<close>

definition convertContains :: "Converter \<Rightarrow> expr \<Rightarrow> expr list \<Rightarrow> error + sqlizer" where
  "convertContains c target args =
     (if length args \<noteq> 1 then
        Inl (Errorf ''contains() requires exactly 1 argument, got %d''
               [ArgInt (int (length args))] None)
      else
        (case getFieldName target of
           Inl err \<Rightarrow> Inl err
         | Inr field \<Rightarrow>
             (let column = mapFieldName c field in
              (case getConstantValue (args ! 0) of
                 Inl err \<Rightarrow> Inl err
               | Inr (VString strValue) \<Rightarrow>
                   (let escapedValue = escapeLikePattern strValue
                    in Inr (Like column (VString (''%'' @ escapedValue @ ''%''))))
               | Inr v \<Rightarrow>
                   Inl (Errorf ''contains() requires string argument, got %T''
                          [ArgStr (typeName v)] None)))))"

definition convertStartsWith :: "Converter \<Rightarrow> expr \<Rightarrow> expr list \<Rightarrow> error + sqlizer" where
  "convertStartsWith c target args =
     (if length args \<noteq> 1 then
        Inl (Errorf ''startsWith() requires exactly 1 argument, got %d''
               [ArgInt (int (length args))] None)
      else
        (case getFieldName target of
           Inl err \<Rightarrow> Inl err
         | Inr field \<Rightarrow>
             (let column = mapFieldName c field in
              (case getConstantValue (args ! 0) of
                 Inl err \<Rightarrow> Inl err
               | Inr (VString strValue) \<Rightarrow>
                   (let escapedValue = escapeLikePattern strValue
                    in Inr (Like column (VString (escapedValue @ ''%''))))
               | Inr v \<Rightarrow>
                   Inl (Errorf ''startsWith() requires string argument, got %T''
                          [ArgStr (typeName v)] None)))))"

definition convertEndsWith :: "Converter \<Rightarrow> expr \<Rightarrow> expr list \<Rightarrow> error + sqlizer" where
  "convertEndsWith c target args =
     (if length args \<noteq> 1 then
        Inl (Errorf ''endsWith() requires exactly 1 argument, got %d''
               [ArgInt (int (length args))] None)
      else
        (case getFieldName target of
           Inl err \<Rightarrow> Inl err
         | Inr field \<Rightarrow>
             (let column = mapFieldName c field in
              (case getConstantValue (args ! 0) of
                 Inl err \<Rightarrow> Inl err
               | Inr (VString strValue) \<Rightarrow>
                   (let escapedValue = escapeLikePattern strValue
                    in Inr (Like column (VString (''%'' @ escapedValue))))
               | Inr v \<Rightarrow>
                   Inl (Errorf ''endsWith() requires string argument, got %T''
                          [ArgStr (typeName v)] None)))))"

fun convertConstExpr :: "Constant \<Rightarrow> error + sqlizer" where
  "convertConstExpr (BoolValue b) = (if b then Inr (Expr ''TRUE'') else Inr (Expr ''FALSE''))"
| "convertConstExpr k =
     Inl (Errorf ''unsupported constant type at top level: %T''
            [ArgStr (constantKindName k)] None)"

text \<open>
  \<^verbatim>\<open>convertExpr\<close> and \<^verbatim>\<open>convertCallExpr\<close> with the three connectives, which
  convert their arguments in turn.
\<close>

function (sequential) convertExpr :: "Converter \<Rightarrow> expr \<Rightarrow> error + sqlizer"
  and convertCallExpr :: "Converter \<Rightarrow> string \<Rightarrow> expr \<Rightarrow> expr list \<Rightarrow> error + sqlizer"
  and convertLogicalAnd :: "Converter \<Rightarrow> expr list \<Rightarrow> error + sqlizer"
  and convertLogicalOr :: "Converter \<Rightarrow> expr list \<Rightarrow> error + sqlizer"
  and convertLogicalNot :: "Converter \<Rightarrow> expr list \<Rightarrow> error + sqlizer" where
  "convertExpr c NilExpr = Inl (Errorf ''nil expression'' [] None)"
| "convertExpr c (CallExpr function target args) = convertCallExpr c function target args"
| "convertExpr c (IdentExpr name) =
     (let column = mapFieldName c name in Inr (Eq column (VBool True)))"
| "convertExpr c (ConstExpr constExpr) = convertConstExpr constExpr"
| "convertExpr c e =
     Inl (Errorf ''unsupported expression type: %T'' [ArgStr (kindName e)] None)"
| "convertCallExpr c function target args =
     (if function = ''_&&_'' then convertLogicalAnd c args
      else if function = ''_||_'' then convertLogicalOr c args
      else if function = ''!_'' then convertLogicalNot c args
      else if function = ''_==_'' then convertComparison c args ''=''
      else if function = ''_!=_'' then convertComparison c args ''!=''
      else if function = ''_<_'' then convertComparison c args ''<''
      else if function = ''_<=_'' then convertComparison c args ''<=''
      else if function = ''_>_'' then convertComparison c args ''>''
      else if function = ''_>=_'' then convertComparison c args ''>=''
      else if function = ''@in'' then convertInOperator c args
      else if function = ''contains'' then convertContains c target args
      else if function = ''startsWith'' then convertStartsWith c target args
      else if function = ''endsWith'' then convertEndsWith c target args
      else Inl (newConversionError ''unsupported filter operation'' ''UNSUPPORTED_OPERATION''
                  (Errorf ''unsupported CEL function: %s'' [ArgStr function] None)))"
| "convertLogicalAnd c args =
     (if length args \<noteq> 2 then
        Inl (Errorf ''AND operator requires exactly 2 arguments, got %d''
               [ArgInt (int (length args))] None)
      else
        (case convertExpr c (args ! 0) of
           Inl err \<Rightarrow> Inl err
         | Inr left \<Rightarrow>
             (case convertExpr c (args ! 1) of
                Inl err \<Rightarrow> Inl err
              | Inr right \<Rightarrow> Inr (And [left, right]))))"
| "convertLogicalOr c args =
     (if length args \<noteq> 2 then
        Inl (Errorf ''OR operator requires exactly 2 arguments, got %d''
               [ArgInt (int (length args))] None)
      else
        (case convertExpr c (args ! 0) of
           Inl err \<Rightarrow> Inl err
         | Inr left \<Rightarrow>
             (case convertExpr c (args ! 1) of
                Inl err \<Rightarrow> Inl err
              | Inr right \<Rightarrow> Inr (Or [left, right]))))"
| "convertLogicalNot c args =
     (if length args \<noteq> 1 then
        Inl (Errorf ''NOT operator requires exactly 1 argument, got %d''
               [ArgInt (int (length args))] None)
      else
        (case convertExpr c (args ! 0) of
           Inl err \<Rightarrow> Inl err
         | Inr inner \<Rightarrow> Inr (notSqlizer inner)))"
  by pat_completeness auto
termination
proof -
  have nth_less: "size (xs ! i) < size_list size xs" if "i < length xs"
    for xs :: "expr list" and i
    using that
  proof (induction xs arbitrary: i)
    case Nil
    then show ?case by simp
  next
    case (Cons x xs)
    show ?case
    proof (cases i)
      case 0
      then show ?thesis by simp
    next
      case (Suc j)
      with Cons.prems have "j < length xs" by simp
      from Cons.IH [OF this] Suc show ?thesis by simp
    qed
  qed
  have arg_less: "3 * size (args ! i) < Suc (3 * size_list size args)" if "i < length args"
    for args :: "expr list" and i
    using nth_less [OF that] by simp
  show ?thesis
    by (relation "measure (\<lambda>x. case x of
           Inl (Inl (c, e)) \<Rightarrow> 3 * size e
         | Inl (Inr (c, f, t, args)) \<Rightarrow> 3 * size_list size args + 2
         | Inr (Inl (c, args)) \<Rightarrow> 3 * size_list size args + 1
         | Inr (Inr (Inl (c, args))) \<Rightarrow> 3 * size_list size args + 1
         | Inr (Inr (Inr (c, args))) \<Rightarrow> 3 * size_list size args + 1)")
      (auto intro: arg_less)
qed

subsection \<open>The entry points\<close>

definition Convert :: "Converter \<Rightarrow> string \<Rightarrow> error + ConvertResult" where
  "Convert c celExpr =
     (if int (length celExpr) > maxExpressionLength c then
        Inl (Errorf ''expression exceeds maximum length of %d characters (got %d)''
               [ArgInt (maxExpressionLength c), ArgInt (int (length celExpr))] None)
      else
        (case env c celExpr of
           Inl issuesErr \<Rightarrow>
             Inl (newConversionError ''invalid filter expression syntax'' ''INVALID_SYNTAX''
                    (Errorf ''CEL compilation failed: %w'' [] (Some (External issuesErr))))
         | Inr compiled \<Rightarrow>
             if OutputType compiled \<noteq> BoolType then
               Inl (newConversionError ''filter expression must evaluate to boolean''
                      ''INVALID_TYPE''
                      (Errorf ''expected boolean, got %v''
                         [ArgStr (TypeString (OutputType compiled))] None))
             else
               (case AstToCheckedExpr compiled of
                  Inl err \<Rightarrow>
                    Inl (Errorf ''failed to convert AST to checked expression: %w'' []
                           (Some (External err)))
                | Inr checkedExpr \<Rightarrow>
                    (let depth = calculateExpressionDepth checkedExpr in
                     if depth > maxExpressionDepth c then
                       Inl (Errorf ''expression exceeds maximum depth of %d (got %d)''
                              [ArgInt (maxExpressionDepth c), ArgInt depth] None)
                     else
                       (case convertExpr c checkedExpr of
                          Inl err \<Rightarrow> Inl (wrap ''failed to convert CEL to SQL: %w'' [] err)
                        | Inr sqlizer \<Rightarrow> Inr \<lparr>Where = sqlizer, Args = []\<rparr>)))))"

definition ConvertWithAuth ::
  "Converter \<Rightarrow> (string list \<Rightarrow> string list) \<Rightarrow> string \<Rightarrow> string list \<Rightarrow> error + ConvertResult" where
  "ConvertWithAuth c rangeOrder celExpr userRoles =
     (if publicFields c = {} \<and> fieldACL c = [] then Convert c celExpr
      else if int (length celExpr) > maxExpressionLength c then
        Inl (Errorf ''expression exceeds maximum length of %d characters (got %d)''
               [ArgInt (maxExpressionLength c), ArgInt (int (length celExpr))] None)
      else
        (case env c celExpr of
           Inl issuesErr \<Rightarrow>
             Inl (newConversionError ''invalid filter expression syntax'' ''INVALID_SYNTAX''
                    (Errorf ''CEL compilation failed: %w'' [] (Some (External issuesErr))))
         | Inr compiled \<Rightarrow>
             if OutputType compiled \<noteq> BoolType then
               Inl (newConversionError ''filter expression must evaluate to boolean''
                      ''INVALID_TYPE''
                      (Errorf ''expected boolean, got %v''
                         [ArgStr (TypeString (OutputType compiled))] None))
             else
               (case AstToCheckedExpr compiled of
                  Inl err \<Rightarrow>
                    Inl (Errorf ''failed to convert AST to checked expression: %w'' []
                           (Some (External err)))
                | Inr checkedExpr \<Rightarrow>
                    (let referencedFields = extractReferencedFields rangeOrder checkedExpr in
                     (case find (\<lambda>field. \<not> isFieldAuthorized c field userRoles)
                             referencedFields of
                        Some field \<Rightarrow>
                          Inl (newConversionError
                                 ''access denied: insufficient permissions for requested filter''
                                 ''UNAUTHORIZED_FIELD''
                                 (Errorf
                                    ''user with roles %v attempted to filter by restricted field: %s''
                                    [ArgStrs userRoles, ArgStr field] None))
                      | None \<Rightarrow>
                          (let depth = calculateExpressionDepth checkedExpr in
                           if depth > maxExpressionDepth c then
                             Inl (Errorf ''expression exceeds maximum depth of %d (got %d)''
                                    [ArgInt (maxExpressionDepth c), ArgInt depth] None)
                           else
                             (case convertExpr c checkedExpr of
                                Inl err \<Rightarrow>
                                  Inl (wrap ''failed to convert CEL to SQL: %w'' [] err)
                              | Inr sqlizer \<Rightarrow> Inr \<lparr>Where = sqlizer, Args = []\<rparr>)))))))"

subsection \<open>Rendering\<close>

text \<open>
  Modelled from the spec: the rendering \<^verbatim>\<open>ToSql\<close> of squirrel's predicate types, the
  external query builder's \<^verbatim>\<open>render() -> (textFragment, orderedBoundValues)\<close>,
  which is not under src/. It follows what the spec and the package's tests say of it: a
  comparison is \<^verbatim>\<open>column op ?\<close> with the value bound, \<^verbatim>\<open>Eq\<close> and
  \<^verbatim>\<open>NotEq\<close> with nil are \<^verbatim>\<open>IS NULL\<close> and \<^verbatim>\<open>IS NOT NULL\<close> with nothing
  bound, \<^verbatim>\<open>Eq\<close> with a list is \<^verbatim>\<open>column IN (?,...)\<close> and with the empty list
  the constant \<^verbatim>\<open>(1=0)\<close>, \<^verbatim>\<open>Like\<close> is \<^verbatim>\<open>column LIKE ?\<close>, \<^verbatim>\<open>And\<close>
  and \<^verbatim>\<open>Or\<close> join their parts in parentheses. The case of \<open>notSqlizer\<close> is the
  package's own \<^verbatim>\<open>ToSql\<close>.
\<close>

fun Placeholders :: "nat \<Rightarrow> string" where
  "Placeholders 0 = []"
| "Placeholders (Suc 0) = ''?''"
| "Placeholders (Suc (Suc n)) = ''?,'' @ Placeholders (Suc n)"

fun Join :: "string list \<Rightarrow> string \<Rightarrow> string" where
  "Join [] sep = []"
| "Join [x] sep = x"
| "Join (x # y # ys) sep = x @ sep @ Join (y # ys) sep"

definition renderOrdering :: "string \<Rightarrow> string \<Rightarrow> go_value \<Rightarrow> error + string \<times> go_value list" where
  "renderOrdering opr column v =
     (case v of
        VNil \<Rightarrow> Inl (External ''cannot use null with less than or greater than operators'')
      | VList vs \<Rightarrow>
          Inl (External ''cannot use array or slice with less than or greater than operators'')
      | _ \<Rightarrow> Inr (column @ '' '' @ opr @ '' ?'', [v]))"

fun ToSql :: "sqlizer \<Rightarrow> error + string \<times> go_value list"
  and joinParts :: "sqlizer list \<Rightarrow> error + string list \<times> go_value list" where
  "ToSql (Eq column v) =
     (case v of
        VNil \<Rightarrow> Inr (column @ '' IS NULL'', [])
      | VList vs \<Rightarrow>
          (if vs = [] then Inr (''(1=0)'', [])
           else Inr (column @ '' IN ('' @ Placeholders (length vs) @ '')'', vs))
      | _ \<Rightarrow> Inr (column @ '' = ?'', [v]))"
| "ToSql (NotEq column v) =
     (case v of
        VNil \<Rightarrow> Inr (column @ '' IS NOT NULL'', [])
      | VList vs \<Rightarrow>
          (if vs = [] then Inr (''(1=1)'', [])
           else Inr (column @ '' NOT IN ('' @ Placeholders (length vs) @ '')'', vs))
      | _ \<Rightarrow> Inr (column @ '' <> ?'', [v]))"
| "ToSql (Lt column v) = renderOrdering ''<'' column v"
| "ToSql (LtOrEq column v) = renderOrdering ''<='' column v"
| "ToSql (Gt column v) = renderOrdering ''>'' column v"
| "ToSql (GtOrEq column v) = renderOrdering ''>='' column v"
| "ToSql (Like column v) =
     (case v of
        VNil \<Rightarrow> Inl (External ''cannot use null with like operators'')
      | VList vs \<Rightarrow> Inl (External ''cannot use array or slice with like operators'')
      | _ \<Rightarrow> Inr (column @ '' LIKE ?'', [v]))"
| "ToSql (And parts) =
     (if parts = [] then Inr (''(1=1)'', [])
      else
        (case joinParts parts of
           Inl err \<Rightarrow> Inl err
         | Inr (sqlParts, args) \<Rightarrow>
             Inr (if sqlParts \<noteq> [] then ''('' @ Join sqlParts '' AND '' @ '')'' else [], args)))"
| "ToSql (Or parts) =
     (if parts = [] then Inr (''(1=0)'', [])
      else
        (case joinParts parts of
           Inl err \<Rightarrow> Inl err
         | Inr (sqlParts, args) \<Rightarrow>
             Inr (if sqlParts \<noteq> [] then ''('' @ Join sqlParts '' OR '' @ '')'' else [], args)))"
| "ToSql (notSqlizer inner) =
     (case ToSql inner of
        Inl err \<Rightarrow> Inl err
      | Inr (sql, args) \<Rightarrow> Inr (''NOT ('' @ sql @ '')'', args))"
| "ToSql (Expr sql) = Inr (sql, [])"
| "joinParts [] = Inr ([], [])"
| "joinParts (part # parts) =
     (case ToSql part of
        Inl err \<Rightarrow> Inl err
      | Inr (partSQL, partArgs) \<Rightarrow>
          (case joinParts parts of
             Inl err \<Rightarrow> Inl err
           | Inr (sqlParts, args) \<Rightarrow>
               if partSQL \<noteq> [] then Inr (partSQL # sqlParts, partArgs @ args)
               else Inr (sqlParts, args)))"

subsection \<open>What a caller sees of a failure\<close>

text \<open>
  The error code a caller can read off a result: that of the \<^verbatim>\<open>*ConversionError\<close>
  the returned error is or wraps, if there is one.
\<close>

definition codeOf :: "error \<Rightarrow> string option" where
  "codeOf e = (case asConversionError e of Some ce \<Rightarrow> ErrorCode ce | None \<Rightarrow> None)"




subsection \<open>The fields an expression refers to\<close>

text \<open>
  The spec's reading of the fields an expression references: every identifier and every
  selected field anywhere in the tree, the parts of a comprehension included; and those
  among them that lie outside every comprehension.
\<close>

function referencedFields :: "expr \<Rightarrow> string set" where
  "referencedFields NilExpr = {}"
| "referencedFields UnsetExpr = {}"
| "referencedFields (ConstExpr k) = {}"
| "referencedFields (IdentExpr name) = {name}"
| "referencedFields (SelectExpr operand field) = insert field (referencedFields operand)"
| "referencedFields (CallExpr f target args) =
     referencedFields target \<union> (\<Union>arg \<in> set args. referencedFields arg)"
| "referencedFields (ListExpr elements) = (\<Union>elem \<in> set elements. referencedFields elem)"
| "referencedFields (StructExpr entries) =
     (\<Union>entry \<in> set entries. referencedFields (fst entry) \<union> referencedFields (snd entry))"
| "referencedFields (ComprehensionExpr iv ir av ai lc ls r) =
     referencedFields ir \<union> referencedFields ai \<union> referencedFields lc
       \<union> referencedFields ls \<union> referencedFields r"
  by pat_completeness auto
termination
proof -
  have elem: "size a < Suc (size_list size xs + n)" if "a \<in> set xs"
    for a :: expr and xs n
    using that by (induction xs) auto
  have key: "size (fst e) < Suc (size_list (\<lambda>x. Suc (size (fst x) + size (snd x))) entries)"
    if "e \<in> set entries" for e :: "expr \<times> expr" and entries
    using that by (induction entries) auto
  have val: "size (snd e) < Suc (size_list (\<lambda>x. Suc (size (fst x) + size (snd x))) entries)"
    if "e \<in> set entries" for e :: "expr \<times> expr" and entries
    using that by (induction entries) auto
  show ?thesis
    by (relation "measure size")
      (auto simp: size_prod_simp intro: elem elem [where n = 0, simplified] key val)
qed


subsection \<open>The escaped form of a character\<close>

text \<open>The escaped form of one character of a pattern.\<close>

definition escapeChar :: "char \<Rightarrow> string" where
  "escapeChar ch =
     (if ch = CHR 0x5C \<or> ch = CHR ''%'' \<or> ch = CHR ''_'' \<or> ch = CHR ''['' \<or> ch = CHR '']''
      then [CHR 0x5C, ch] else [ch])"

subsection \<open>A sample configuration\<close>

text \<open>
  A converter in the manner of the package's authorization tests: \<open>status\<close> is public,
  \<open>owner_id\<close>, \<open>salary\<close> and \<open>filter\<close> are restricted to roles. Its environment
  stands for the CEL compiler on the few source texts used below.
\<close>

text \<open>
  The comprehension to which the macro in \<^verbatim>\<open>[1, 2].exists(x, x == salary)\<close> expands.
\<close>

definition existsSalary :: expr where
  "existsSalary =
     ComprehensionExpr ''x'' (ListExpr [ConstExpr (Int64Value 1), ConstExpr (Int64Value 2)])
       ''__result__'' (ConstExpr (BoolValue False))
       (CallExpr ''@not_strictly_false'' NilExpr
          [CallExpr ''!_'' NilExpr [IdentExpr ''__result__'']])
       (CallExpr ''_||_'' NilExpr
          [IdentExpr ''__result__'',
           CallExpr ''_==_'' NilExpr [IdentExpr ''x'', IdentExpr ''salary'']])
       (IdentExpr ''__result__'')"

definition sampleEnv :: "string \<Rightarrow> string + ast" where
  "sampleEnv src =
     (if src = ''deletedAt == null'' then
        Inr \<lparr>OutputType = BoolType, AstToCheckedExpr =
          Inr (CallExpr ''_==_'' NilExpr [IdentExpr ''deletedAt'', ConstExpr NullValue])\<rparr>
      else if src = ''status in []'' then
        Inr \<lparr>OutputType = BoolType, AstToCheckedExpr =
          Inr (CallExpr ''@in'' NilExpr [IdentExpr ''status'', ListExpr []])\<rparr>
      else if src = ''salary > 50000'' then
        Inr \<lparr>OutputType = BoolType, AstToCheckedExpr =
          Inr (CallExpr ''_>_'' NilExpr [IdentExpr ''salary'', ConstExpr (Int64Value 50000)])\<rparr>
      else if src = ''filter == 1'' then
        Inr \<lparr>OutputType = BoolType, AstToCheckedExpr =
          Inr (CallExpr ''_==_'' NilExpr [IdentExpr ''filter'', ConstExpr (Int64Value 1)])\<rparr>
      else if src = ''!(salary > 50000)'' then
        Inr \<lparr>OutputType = BoolType, AstToCheckedExpr =
          Inr (CallExpr ''!_'' NilExpr
                 [CallExpr ''_>_'' NilExpr [IdentExpr ''salary'', ConstExpr (Int64Value 50000)]])\<rparr>
      else if src = ''[1, 2].exists(x, x == salary)'' then
        Inr \<lparr>OutputType = BoolType, AstToCheckedExpr = Inr existsSalary\<rparr>
      else if src = ''status'' then
        Inr \<lparr>OutputType = StringType, AstToCheckedExpr = Inr (IdentExpr ''status'')\<rparr>
      else Inl ''Syntax error'')"

definition sampleDeclarations :: "string \<rightharpoonup> ColumnMapping" where
  "sampleDeclarations =
     [''status'' \<mapsto> \<lparr>Type = Some StringType, Column = ''status''\<rparr>,
      ''owner_id'' \<mapsto> \<lparr>Type = Some StringType, Column = ''owner_id''\<rparr>,
      ''salary'' \<mapsto> \<lparr>Type = Some IntType, Column = ''salary''\<rparr>,
      ''filter'' \<mapsto> \<lparr>Type = Some IntType, Column = ''filter''\<rparr>,
      ''deletedAt'' \<mapsto> \<lparr>Type = Some TimestampType, Column = ''deleted_at''\<rparr>]"

definition sampleColumns :: "string \<rightharpoonup> string" where
  "sampleColumns =
     [''status'' \<mapsto> ''status'', ''owner_id'' \<mapsto> ''owner_id'', ''salary'' \<mapsto> ''salary'',
      ''filter'' \<mapsto> ''filter'', ''deletedAt'' \<mapsto> ''deleted_at'']"

text \<open>\<open>openConverter\<close> has no policy; \<open>aclConverter\<close> has one, and a depth limit of 2.\<close>

definition openConverter :: Converter where
  "openConverter =
     \<lparr>env = sampleEnv, columnMappings = sampleColumns, fieldDeclarations = sampleDeclarations,
      maxExpressionLength = 10000, maxExpressionDepth = 50, maxInClauseSize = 1000,
      publicFields = {}, fieldACL = []\<rparr>"

definition aclConverter :: Converter where
  "aclConverter =
     \<lparr>env = sampleEnv, columnMappings = sampleColumns, fieldDeclarations = sampleDeclarations,
      maxExpressionLength = 10000, maxExpressionDepth = 2, maxInClauseSize = 1000,
      publicFields = {''status''},
      fieldACL = [(''owner_id'', [''admin'', ''manager'']), (''salary'', [''admin'', ''hr'']),
                  (''filter'', [''admin''])]\<rparr>"

section \<open>Properties\<close>

subsection \<open>The pattern escaper\<close>

lemma ReplaceAll_append:
  "ReplaceAll (xs @ ys) old new = ReplaceAll xs old new @ ReplaceAll ys old new"
  by (induction xs) simp_all

lemma escapeLikePattern_Nil: "escapeLikePattern [] = []"
  by (simp add: escapeLikePattern_def)

lemma escapeLikePattern_Cons: "escapeLikePattern (ch # s) = escapeChar ch @ escapeLikePattern s"
  by (simp add: escapeLikePattern_def escapeChar_def ReplaceAll_append Let_def)

lemma escapeLikePattern_concat: "escapeLikePattern s = concat (map escapeChar s)"
  by (induction s) (simp_all add: escapeLikePattern_Nil escapeLikePattern_Cons)

text \<open>
  C1. The pattern escaper replaces the backslash first, then the percent sign, then the
  underscore, then the two brackets, each by itself behind a backslash; the result is the
  input with exactly one backslash put before each of these five characters and nothing
  else changed. For \<^verbatim>\<open>contains\<close> on a field \<open>f\<close> with the literal of the three
  characters percent, underscore, backslash, the predicate is \<^verbatim>\<open>Like\<close> on the column
  of \<open>f\<close> with the pattern percent, backslash percent, backslash underscore, backslash
  backslash, percent, and that pattern is the one bound value.
\<close>

theorem C1_pattern_escaper:
  "escapeLikePattern s =
     ReplaceAll (ReplaceAll (ReplaceAll (ReplaceAll (ReplaceAll s
       (CHR 0x5C) [CHR 0x5C, CHR 0x5C])
       (CHR ''%'') [CHR 0x5C, CHR ''%''])
       (CHR ''_'') [CHR 0x5C, CHR ''_''])
       (CHR ''['') [CHR 0x5C, CHR ''[''])
       (CHR '']'') [CHR 0x5C, CHR '']'']
   \<and> escapeLikePattern s = concat (map escapeChar s)
   \<and> convertExpr c (CallExpr ''contains'' (IdentExpr f)
          [ConstExpr (StringValue [CHR ''%'', CHR ''_'', CHR 0x5C])]) =
       Inr (Like (mapFieldName c f)
              (VString [CHR ''%'', CHR 0x5C, CHR ''%'', CHR 0x5C, CHR ''_'', CHR 0x5C, CHR 0x5C,
                        CHR ''%'']))
   \<and> ToSql (Like (mapFieldName c f)
              (VString [CHR ''%'', CHR 0x5C, CHR ''%'', CHR 0x5C, CHR ''_'', CHR 0x5C, CHR 0x5C,
                        CHR ''%''])) =
       Inr (mapFieldName c f @ '' LIKE ?'',
            [VString [CHR ''%'', CHR 0x5C, CHR ''%'', CHR 0x5C, CHR ''_'', CHR 0x5C, CHR 0x5C,
                      CHR ''%'']])"
proof (intro conjI)
  show "escapeLikePattern s =
     ReplaceAll (ReplaceAll (ReplaceAll (ReplaceAll (ReplaceAll s
       (CHR 0x5C) [CHR 0x5C, CHR 0x5C])
       (CHR ''%'') [CHR 0x5C, CHR ''%''])
       (CHR ''_'') [CHR 0x5C, CHR ''_''])
       (CHR ''['') [CHR 0x5C, CHR ''[''])
       (CHR '']'') [CHR 0x5C, CHR '']'']"
    by (simp add: escapeLikePattern_def)
  show "escapeLikePattern s = concat (map escapeChar s)"
    by (rule escapeLikePattern_concat)
  show "convertExpr c (CallExpr ''contains'' (IdentExpr f)
          [ConstExpr (StringValue [CHR ''%'', CHR ''_'', CHR 0x5C])]) =
       Inr (Like (mapFieldName c f)
              (VString [CHR ''%'', CHR 0x5C, CHR ''%'', CHR 0x5C, CHR ''_'', CHR 0x5C, CHR 0x5C,
                        CHR ''%'']))"
    by (simp add: convertContains_def escapeLikePattern_def)
qed simp

subsection \<open>The string operators\<close>

text \<open>
  C2. A string operator whose receiver is a field (an identifier or a field selection)
  and whose one argument is a string literal gives a \<^verbatim>\<open>Like\<close> on the field's column;
  the literal is escaped first and the wildcards are put around the escaped text:
  \<^verbatim>\<open>contains\<close> on both sides, \<^verbatim>\<open>startsWith\<close> behind it only, \<^verbatim>\<open>endsWith\<close>
  before it only. The escaped text is the literal with a backslash put before each
  backslash, percent sign, underscore and bracket, so that the wildcards the operator adds
  are the only unescaped ones: \<^verbatim>\<open>startsWith\<close> with the literal \<^verbatim>\<open>%admin\<close> gives
  backslash, \<^verbatim>\<open>%admin%\<close>, and \<^verbatim>\<open>endsWith\<close> with \<^verbatim>\<open>_test\<close> gives percent,
  backslash, \<^verbatim>\<open>_test\<close>.
\<close>

theorem C2_string_operators:
  "convertExpr c (CallExpr ''contains'' (IdentExpr f) [ConstExpr (StringValue s)]) =
     Inr (Like (mapFieldName c f) (VString (''%'' @ escapeLikePattern s @ ''%'')))
   \<and> convertExpr c (CallExpr ''startsWith'' (IdentExpr f) [ConstExpr (StringValue s)]) =
     Inr (Like (mapFieldName c f) (VString (escapeLikePattern s @ ''%'')))
   \<and> convertExpr c (CallExpr ''endsWith'' (IdentExpr f) [ConstExpr (StringValue s)]) =
     Inr (Like (mapFieldName c f) (VString (''%'' @ escapeLikePattern s)))
   \<and> convertExpr c (CallExpr ''contains'' (SelectExpr operand f) [ConstExpr (StringValue s)]) =
     Inr (Like (mapFieldName c f) (VString (''%'' @ escapeLikePattern s @ ''%'')))
   \<and> convertExpr c (CallExpr ''startsWith'' (SelectExpr operand f) [ConstExpr (StringValue s)]) =
     Inr (Like (mapFieldName c f) (VString (escapeLikePattern s @ ''%'')))
   \<and> convertExpr c (CallExpr ''endsWith'' (SelectExpr operand f) [ConstExpr (StringValue s)]) =
     Inr (Like (mapFieldName c f) (VString (''%'' @ escapeLikePattern s)))
   \<and> escapeLikePattern s =
       concat (map (\<lambda>ch. if ch = CHR 0x5C \<or> ch = CHR ''%'' \<or> ch = CHR ''_'' \<or> ch = CHR ''[''
                             \<or> ch = CHR '']'' then [CHR 0x5C, ch] else [ch]) s)
   \<and> convertExpr c (CallExpr ''contains'' (IdentExpr f) [ConstExpr (StringValue ''[a_b]%'')]) =
       Inr (Like (mapFieldName c f)
              (VString (''%'' @ [CHR 0x5C] @ ''[a'' @ [CHR 0x5C] @ ''_b'' @ [CHR 0x5C] @ '']''
                          @ [CHR 0x5C] @ ''%'' @ ''%'')))
   \<and> convertExpr c (CallExpr ''startsWith'' (IdentExpr f) [ConstExpr (StringValue ''%admin'')]) =
       Inr (Like (mapFieldName c f) (VString ([CHR 0x5C] @ ''%admin'' @ ''%'')))
   \<and> convertExpr c (CallExpr ''endsWith'' (IdentExpr f) [ConstExpr (StringValue ''_test'')]) =
       Inr (Like (mapFieldName c f) (VString (''%'' @ [CHR 0x5C] @ ''_test'')))"
proof -
  have ops: "convertExpr c (CallExpr ''contains'' target [ConstExpr (StringValue lit)]) =
        Inr (Like (mapFieldName c f) (VString (''%'' @ escapeLikePattern lit @ ''%'')))
      \<and> convertExpr c (CallExpr ''startsWith'' target [ConstExpr (StringValue lit)]) =
        Inr (Like (mapFieldName c f) (VString (escapeLikePattern lit @ ''%'')))
      \<and> convertExpr c (CallExpr ''endsWith'' target [ConstExpr (StringValue lit)]) =
        Inr (Like (mapFieldName c f) (VString (''%'' @ escapeLikePattern lit)))"
    if "getFieldName target = Inr f" for target lit
    using that by (simp add: convertContains_def convertStartsWith_def convertEndsWith_def)
  have esc: "escapeLikePattern lit =
       concat (map (\<lambda>ch. if ch = CHR 0x5C \<or> ch = CHR ''%'' \<or> ch = CHR ''_'' \<or> ch = CHR ''[''
                             \<or> ch = CHR '']'' then [CHR 0x5C, ch] else [ch]) lit)" for lit
    unfolding escapeLikePattern_concat by (rule arg_cong [where f = concat]) (simp add: escapeChar_def)
  have i: "getFieldName (IdentExpr f) = Inr f"
    and sel: "getFieldName (SelectExpr operand f) = Inr f"
    by simp_all
  note a = ops [OF i, of s] and b = ops [OF sel, of s]
  have x: "escapeLikePattern ''[a_b]%'' =
      [CHR 0x5C] @ ''[a'' @ [CHR 0x5C] @ ''_b'' @ [CHR 0x5C] @ '']'' @ [CHR 0x5C] @ ''%''"
    by (simp add: esc)
  have y: "escapeLikePattern ''%admin'' = [CHR 0x5C] @ ''%admin''"
    by (simp add: esc)
  have z: "escapeLikePattern ''_test'' = [CHR 0x5C] @ ''_test''"
    by (simp add: esc)
  from ops [OF i, of "''[a_b]%''"] ops [OF i, of "''%admin''"] ops [OF i, of "''_test''"]
  have ex: "convertExpr c (CallExpr ''contains'' (IdentExpr f) [ConstExpr (StringValue ''[a_b]%'')]) =
       Inr (Like (mapFieldName c f)
              (VString (''%'' @ [CHR 0x5C] @ ''[a'' @ [CHR 0x5C] @ ''_b'' @ [CHR 0x5C] @ '']''
                          @ [CHR 0x5C] @ ''%'' @ ''%'')))
   \<and> convertExpr c (CallExpr ''startsWith'' (IdentExpr f) [ConstExpr (StringValue ''%admin'')]) =
       Inr (Like (mapFieldName c f) (VString ([CHR 0x5C] @ ''%admin'' @ ''%'')))
   \<and> convertExpr c (CallExpr ''endsWith'' (IdentExpr f) [ConstExpr (StringValue ''_test'')]) =
       Inr (Like (mapFieldName c f) (VString (''%'' @ [CHR 0x5C] @ ''_test'')))"
    unfolding x y z by simp
  from a b esc [of s] ex show ?thesis by blast
qed

subsection \<open>Error codes of a failure\<close>

lemma codeOf_simps [simp]:
  "codeOf Panic = None"
  "codeOf (External m) = None"
  "codeOf (Errorf f a None) = None"
  "codeOf (Errorf f a (Some e)) = codeOf e"
  "codeOf (ConversionError msg code internal) = Some code"
  by (simp_all add: codeOf_def)

lemma codeOf_wrap [simp]: "codeOf (wrap f a e) = codeOf e"
  by (cases e) simp_all














subsection \<open>The limits\<close>





lemma Convert_success:
  "\<lbrakk>int (length celExpr) \<le> maxExpressionLength c; env c celExpr = Inr compiled;
    OutputType compiled = BoolType; AstToCheckedExpr compiled = Inr e;
    calculateExpressionDepth e \<le> maxExpressionDepth c; convertExpr c e = Inr q\<rbrakk> \<Longrightarrow>
   Convert c celExpr = Inr \<lparr>Where = q, Args = []\<rparr>"
  by (simp add: Convert_def Let_def del: convertExpr.simps)

lemma ConvertWithAuth_success:
  "\<lbrakk>int (length celExpr) \<le> maxExpressionLength c; env c celExpr = Inr compiled;
    OutputType compiled = BoolType; AstToCheckedExpr compiled = Inr e;
    find (\<lambda>field. \<not> isFieldAuthorized c field userRoles) (rangeOrder (walkExpr e [])) = None;
    calculateExpressionDepth e \<le> maxExpressionDepth c; convertExpr c e = Inr q\<rbrakk> \<Longrightarrow>
   ConvertWithAuth c rangeOrder celExpr userRoles = Inr \<lparr>Where = q, Args = []\<rparr>"
  by (simp add: ConvertWithAuth_def Convert_def Let_def extractReferencedFields_def
      del: convertExpr.simps)

subsection \<open>The sample configuration at work\<close>

lemma sample_salary:
  "env openConverter ''salary > 50000'' =
     Inr \<lparr>OutputType = BoolType, AstToCheckedExpr =
       Inr (CallExpr ''_>_'' NilExpr [IdentExpr ''salary'', ConstExpr (Int64Value 50000)])\<rparr>"
  "env aclConverter ''salary > 50000'' =
     Inr \<lparr>OutputType = BoolType, AstToCheckedExpr =
       Inr (CallExpr ''_>_'' NilExpr [IdentExpr ''salary'', ConstExpr (Int64Value 50000)])\<rparr>"
  by (simp_all add: openConverter_def aclConverter_def sampleEnv_def)



lemma sample_convert_salary:
  "convertExpr openConverter
     (CallExpr ''_>_'' NilExpr [IdentExpr ''salary'', ConstExpr (Int64Value 50000)]) =
   Inr (Gt ''salary'' (VInt64 50000))"
  "convertExpr aclConverter
     (CallExpr ''_>_'' NilExpr [IdentExpr ''salary'', ConstExpr (Int64Value 50000)]) =
   Inr (Gt ''salary'' (VInt64 50000))"
  by (simp_all add: convertComparison_def validateTypeCompatibility_def mapFieldName_def
      openConverter_def aclConverter_def sampleColumns_def sampleDeclarations_def)

lemma sample_Convert_salary:
  "Convert openConverter ''salary > 50000'' =
     Inr \<lparr>Where = Gt ''salary'' (VInt64 50000), Args = []\<rparr>"
  by (rule Convert_success [OF _ sample_salary(1) _ _ _ sample_convert_salary(1)])
    (simp_all add: openConverter_def)

lemma sample_authorized:
  "isFieldAuthorized aclConverter ''salary'' [''hr'']"
  "\<not> isFieldAuthorized aclConverter ''salary'' [''user'']"
  "\<not> isFieldAuthorized aclConverter ''filter'' [''user'']"
  "\<not> isFieldAuthorized openConverter ''salary'' []"
  by (simp_all add: isFieldAuthorized_def aclConverter_def openConverter_def)

lemma sample_ConvertWithAuth_salary:
  "ConvertWithAuth aclConverter id ''salary > 50000'' [''hr''] =
     Inr \<lparr>Where = Gt ''salary'' (VInt64 50000), Args = []\<rparr>"
proof (rule ConvertWithAuth_success [OF _ sample_salary(2) _ _ _ _ sample_convert_salary(2)])
  show "find (\<lambda>field. \<not> isFieldAuthorized aclConverter field [''hr''])
      (id (walkExpr (CallExpr ''_>_'' NilExpr
         [IdentExpr ''salary'', ConstExpr (Int64Value 50000)]) [])) = None"
    by (simp add: addField_def sample_authorized)
qed (simp_all add: aclConverter_def)

subsection \<open>Failures, their codes and the three limits\<close>




subsection \<open>The run-time type check\<close>










subsection \<open>Null checks and the empty list\<close>

text \<open>
  C5. A comparison of a field (an identifier or a field selection) with the null literal
  gives, for \<^verbatim>\<open>==\<close>, the predicate \<^verbatim>\<open>Eq{column: nil}\<close>, which renders as
  \<^verbatim>\<open>column IS NULL\<close>, and for \<^verbatim>\<open>!=\<close> the predicate \<^verbatim>\<open>NotEq{column: nil}\<close>,
  which renders as \<^verbatim>\<open>column IS NOT NULL\<close>; neither binds a value.
\<close>

theorem C5_null_checks:
  assumes "getFieldName lhs = Inr field"
  shows "convertExpr c (CallExpr ''_==_'' target [lhs, ConstExpr NullValue]) =
           Inr (Eq (mapFieldName c field) VNil)
       \<and> ToSql (Eq (mapFieldName c field) VNil) = Inr (mapFieldName c field @ '' IS NULL'', [])
       \<and> convertExpr c (CallExpr ''_!=_'' target [lhs, ConstExpr NullValue]) =
           Inr (NotEq (mapFieldName c field) VNil)
       \<and> ToSql (NotEq (mapFieldName c field) VNil) =
           Inr (mapFieldName c field @ '' IS NOT NULL'', [])"
  using assms by (simp add: convertComparison_def)

theorem C5_null_checks_witness:
  "getFieldName (IdentExpr ''deletedAt'') = Inr ''deletedAt''
   \<and> convertExpr openConverter
        (CallExpr ''_==_'' NilExpr [IdentExpr ''deletedAt'', ConstExpr NullValue]) =
       Inr (Eq ''deleted_at'' VNil)
   \<and> ToSql (Eq ''deleted_at'' VNil) = Inr (''deleted_at IS NULL'', [])
   \<and> convertExpr openConverter
        (CallExpr ''_!=_'' NilExpr [IdentExpr ''deletedAt'', ConstExpr NullValue]) =
       Inr (NotEq ''deleted_at'' VNil)
   \<and> ToSql (NotEq ''deleted_at'' VNil) = Inr (''deleted_at IS NOT NULL'', [])"
proof -
  have h: "getFieldName (IdentExpr ''deletedAt'') = Inr ''deletedAt''" by simp
  have m: "mapFieldName openConverter ''deletedAt'' = ''deleted_at''"
    by (simp add: mapFieldName_def openConverter_def sampleColumns_def)
  from C5_null_checks [OF h, of openConverter NilExpr] h m show ?thesis by simp
qed

text \<open>
  C6 (as stated). Every membership in the empty literal list converts. It does not hold:
  the size check of the list comes first and compares with \<open>maxInClauseSize\<close> as it
  is, so that with a limit of -1 the empty list is too large; and a left operand that is
  no field is rejected before the list is looked at.
\<close>

theorem C6_empty_list_counterexample:
  "maxInClauseSize (openConverter\<lparr>maxInClauseSize := - 1\<rparr>) = - 1
   \<and> convertExpr (openConverter\<lparr>maxInClauseSize := - 1\<rparr>)
        (CallExpr ''@in'' NilExpr [IdentExpr ''status'', ListExpr []]) =
       Inl (Errorf ''IN clause size %d exceeds maximum of %d'' [ArgInt 0, ArgInt (- 1)] None)
   \<and> Convert (openConverter\<lparr>maxInClauseSize := - 1\<rparr>) ''status in []'' =
       Inl (Errorf ''failed to convert CEL to SQL: %w'' []
              (Some (Errorf ''IN clause size %d exceeds maximum of %d''
                       [ArgInt 0, ArgInt (- 1)] None)))
   \<and> convertExpr openConverter
        (CallExpr ''@in'' NilExpr [ConstExpr (Int64Value 1), ListExpr []]) =
       Inl (Errorf ''expression is not a field identifier: %T''
              [ArgStr ''*expr.Expr_ConstExpr''] None)"
proof -
  let ?c = "openConverter\<lparr>maxInClauseSize := - 1\<rparr>"
  let ?e = "CallExpr ''@in'' NilExpr [IdentExpr ''status'', ListExpr []]"
  have m: "maxInClauseSize ?c = - 1" by simp
  have r: "convertExpr ?c ?e =
      Inl (Errorf ''IN clause size %d exceeds maximum of %d'' [ArgInt 0, ArgInt (- 1)] None)"
    by (simp add: convertInOperator_def)
  have e: "env ?c ''status in []'' = Inr \<lparr>OutputType = BoolType, AstToCheckedExpr = Inr ?e\<rparr>"
    by (simp add: openConverter_def sampleEnv_def)
  have l: "\<not> maxExpressionLength ?c < int (length ''status in []'')"
    and d: "\<not> maxExpressionDepth ?c < calculateExpressionDepth ?e"
    by (simp_all add: openConverter_def)
  have t: "Convert ?c ''status in []'' =
      Inl (Errorf ''failed to convert CEL to SQL: %w'' []
             (Some (Errorf ''IN clause size %d exceeds maximum of %d''
                      [ArgInt 0, ArgInt (- 1)] None)))"
    unfolding Convert_def e using l d r by (simp del: convertExpr.simps)
  have n: "convertExpr openConverter
        (CallExpr ''@in'' NilExpr [ConstExpr (Int64Value 1), ListExpr []]) =
       Inl (Errorf ''expression is not a field identifier: %T''
              [ArgStr ''*expr.Expr_ConstExpr''] None)"
    by (simp add: convertInOperator_def)
  from m r t n show ?thesis by simp
qed

text \<open>
  C6 (amended). Membership of a field (an identifier or a field selection) in the empty
  literal list converts, when the limit \<open>maxInClauseSize\<close> is not negative, to
  \<^verbatim>\<open>Eq\<close> with the empty list, which renders as the always-false \<^verbatim>\<open>(1=0)\<close> with no
  bound value and not as an \<^verbatim>\<open>IN\<close> clause; and \<^verbatim>\<open>Convert\<close> succeeds with this
  predicate on a source text within the limits that compiles to such a membership.
\<close>

theorem C6_empty_list:
  assumes "getFieldName lhs = Inr field" and "0 \<le> maxInClauseSize c"
  shows "convertExpr c (CallExpr ''@in'' target [lhs, ListExpr []]) =
           Inr (Eq (mapFieldName c field) (VList []))
       \<and> ToSql (Eq (mapFieldName c field) (VList [])) = Inr (''(1=0)'', [])
       \<and> (int (length celExpr) \<le> maxExpressionLength c \<and> env c celExpr = Inr compiled
            \<and> OutputType compiled = BoolType
            \<and> AstToCheckedExpr compiled = Inr (CallExpr ''@in'' target [lhs, ListExpr []])
            \<and> calculateExpressionDepth (CallExpr ''@in'' target [lhs, ListExpr []])
                 \<le> maxExpressionDepth c \<longrightarrow>
            Convert c celExpr =
              Inr \<lparr>Where = Eq (mapFieldName c field) (VList []), Args = []\<rparr>)"
proof -
  have conv: "convertExpr c (CallExpr ''@in'' target [lhs, ListExpr []]) =
      Inr (Eq (mapFieldName c field) (VList []))"
    using assms by (simp add: convertInOperator_def)
  have "Convert c celExpr = Inr \<lparr>Where = Eq (mapFieldName c field) (VList []), Args = []\<rparr>"
    if "int (length celExpr) \<le> maxExpressionLength c \<and> env c celExpr = Inr compiled
        \<and> OutputType compiled = BoolType
        \<and> AstToCheckedExpr compiled = Inr (CallExpr ''@in'' target [lhs, ListExpr []])
        \<and> calculateExpressionDepth (CallExpr ''@in'' target [lhs, ListExpr []])
             \<le> maxExpressionDepth c"
    using that Convert_success [OF _ _ _ _ _ conv, of celExpr compiled] by blast
  with conv show ?thesis by simp
qed

theorem C6_empty_list_witness:
  "getFieldName (IdentExpr ''status'') = Inr ''status''
   \<and> 0 \<le> maxInClauseSize openConverter
   \<and> convertExpr openConverter (CallExpr ''@in'' NilExpr [IdentExpr ''status'', ListExpr []]) =
       Inr (Eq ''status'' (VList []))
   \<and> ToSql (Eq ''status'' (VList [])) = Inr (''(1=0)'', [])
   \<and> Convert openConverter ''status in []'' = Inr \<lparr>Where = Eq ''status'' (VList []), Args = []\<rparr>"
proof -
  let ?e = "CallExpr ''@in'' NilExpr [IdentExpr ''status'', ListExpr []]"
  let ?ast = "\<lparr>OutputType = BoolType, AstToCheckedExpr = Inr ?e\<rparr>"
  have h: "getFieldName (IdentExpr ''status'') = Inr ''status''" by simp
  have n: "0 \<le> maxInClauseSize openConverter" by (simp add: openConverter_def)
  have m: "mapFieldName openConverter ''status'' = ''status''"
    by (simp add: mapFieldName_def openConverter_def sampleColumns_def)
  have e: "int (length ''status in []'') \<le> maxExpressionLength openConverter
      \<and> env openConverter ''status in []'' = Inr ?ast
      \<and> OutputType ?ast = BoolType \<and> AstToCheckedExpr ?ast = Inr ?e
      \<and> calculateExpressionDepth ?e \<le> maxExpressionDepth openConverter"
    by (simp add: openConverter_def sampleEnv_def)
  note r = C6_empty_list [OF h n, of NilExpr "''status in []''" ?ast]
  from r e have "Convert openConverter ''status in []'' =
      Inr \<lparr>Where = Eq (mapFieldName openConverter ''status'') (VList []), Args = []\<rparr>"
    by blast
  with r h n m show ?thesis by simp
qed

subsection \<open>Authorization\<close>

lemma isFieldAuthorized_iff:
  "isFieldAuthorized c field userRoles \<longleftrightarrow>
     field \<in> publicFields c \<or>
     (\<exists>allowedRoles. map_of (fieldACL c) field = Some allowedRoles \<and>
        set userRoles \<inter> set allowedRoles \<noteq> {})"
  by (auto simp: isFieldAuthorized_def list_ex_iff split: option.splits)

text \<open>
  C7. A field is authorized for a list of roles exactly when it is a public field or one
  of the roles is among those the ACL gives for the field; and a converter with no public
  field and no ACL entry makes \<^verbatim>\<open>ConvertWithAuth\<close> return what \<^verbatim>\<open>Convert\<close> returns,
  whatever the roles.
\<close>

theorem C7_authorization:
  "(isFieldAuthorized c field userRoles \<longleftrightarrow>
      field \<in> publicFields c \<or>
      (\<exists>allowedRoles. map_of (fieldACL c) field = Some allowedRoles \<and>
         set userRoles \<inter> set allowedRoles \<noteq> {}))
   \<and> (publicFields c = {} \<and> fieldACL c = [] \<longrightarrow>
        ConvertWithAuth c rangeOrder celExpr userRoles = Convert c celExpr)"
  by (simp add: isFieldAuthorized_iff ConvertWithAuth_def)

theorem C7_authorization_witness:
  "publicFields openConverter = {} \<and> fieldACL openConverter = []
   \<and> ConvertWithAuth openConverter id ''salary > 50000'' [] =
       Convert openConverter ''salary > 50000''
   \<and> Convert openConverter ''salary > 50000'' =
       Inr \<lparr>Where = Gt ''salary'' (VInt64 50000), Args = []\<rparr>
   \<and> isFieldAuthorized aclConverter ''salary'' [''hr'']"
proof -
  have p: "publicFields openConverter = {} \<and> fieldACL openConverter = []"
    by (simp add: openConverter_def)
  from C7_authorization [of openConverter "''salary''" "[]" id "''salary > 50000''"] p
  have "ConvertWithAuth openConverter id ''salary > 50000'' [] =
      Convert openConverter ''salary > 50000''"
    by blast
  with p sample_Convert_salary sample_authorized(1) show ?thesis by simp
qed















subsection \<open>The result\<close>

text \<open>
  C10. When \<^verbatim>\<open>Convert\<close> or \<^verbatim>\<open>ConvertWithAuth\<close> succeeds, the \<^verbatim>\<open>Args\<close> of
  the result is the empty slice: the bound values are in the predicate \<^verbatim>\<open>Where\<close>.
\<close>

theorem C10_args_empty:
  "(Convert c celExpr = Inr r \<longrightarrow> Args r = [])
   \<and> (ConvertWithAuth c rangeOrder celExpr userRoles = Inr r \<longrightarrow> Args r = [])"
proof -
  have a: "Args r = []" if "Convert c celExpr = Inr r" for r
    using that by (auto simp: Convert_def Let_def split: if_splits sum.splits)
  have b: "Args r = []" if "ConvertWithAuth c rangeOrder celExpr userRoles = Inr r" for r
    using that a
    by (auto simp: ConvertWithAuth_def Let_def split: if_splits sum.splits option.splits)
  from a b show ?thesis by blast
qed

theorem C10_args_empty_witness:
  "Convert openConverter ''salary > 50000'' =
     Inr \<lparr>Where = Gt ''salary'' (VInt64 50000), Args = []\<rparr>
   \<and> ConvertWithAuth aclConverter id ''salary > 50000'' [''hr''] =
     Inr \<lparr>Where = Gt ''salary'' (VInt64 50000), Args = []\<rparr>
   \<and> Args \<lparr>Where = Gt ''salary'' (VInt64 50000), Args = []\<rparr> = []"
proof -
  note a = sample_Convert_salary and b = sample_ConvertWithAuth_salary
  from C10_args_empty [of openConverter "''salary > 50000''"
      "\<lparr>Where = Gt ''salary'' (VInt64 50000), Args = []\<rparr>"] a
  have "Args \<lparr>Where = Gt ''salary'' (VInt64 50000), Args = []\<rparr> = []"
    by blast
  with a b show ?thesis by simp
qed

end
